theory Spec2Isabelle
  imports Complex_Main "HOL-Library.Multiset" "HOL-Library.List_Lexorder" "HOL-Library.Char_ord"
begin

section \<open>Python strings\<close>

text \<open>
  Strings are modelled as ASCII text (\<^typ>\<open>string\<close>, one \<^typ>\<open>char\<close> per code point).
  The character classes below are Python's \<^verbatim>\<open>str.isspace\<close>, \<^verbatim>\<open>str.isupper\<close> and
  \<^verbatim>\<open>str.islower\<close> restricted to the ASCII range.
\<close>

definition is_space :: "char \<Rightarrow> bool" where
  "is_space c \<longleftrightarrow>
     (let n = (of_char c :: nat) in (9 \<le> n \<and> n \<le> 13) \<or> (28 \<le> n \<and> n \<le> 32))"

definition is_upper :: "char \<Rightarrow> bool" where
  "is_upper c \<longleftrightarrow> (let n = (of_char c :: nat) in 65 \<le> n \<and> n \<le> 90)"



definition lower_char :: "char \<Rightarrow> char" where
  "lower_char c = (if is_upper c then char_of (of_char c + 32 :: nat) else c)"


text \<open>\<^verbatim>\<open>s.lower()\<close>\<close>

definition lower :: "string \<Rightarrow> string" where
  "lower s = map lower_char s"

text \<open>\<^verbatim>\<open>s.strip()\<close>: leading and trailing whitespace removed.\<close>

definition strip :: "string \<Rightarrow> string" where
  "strip s = rev (dropWhile is_space (rev (dropWhile is_space s)))"

text \<open>\<^verbatim>\<open>s.replace('_', ' ')\<close>\<close>

definition replace_underscore :: "string \<Rightarrow> string" where
  "replace_underscore s = map (\<lambda>c. if c = CHR ''_'' then CHR '' '' else c) s"

text \<open>\<^verbatim>\<open>s.split()\<close>: the maximal runs of non-whitespace characters, in order.\<close>

function split :: "string \<Rightarrow> string list" where
  "split s =
     (case dropWhile is_space s of
        [] \<Rightarrow> []
      | c # cs \<Rightarrow> takeWhile (\<lambda>x. \<not> is_space x) (c # cs)
                 # split (dropWhile (\<lambda>x. \<not> is_space x) (c # cs)))"
  by pat_completeness auto
termination
proof (relation "measure length")
  show "wf (measure length)" by simp
next
  fix s :: string and c cs
  assume a: "dropWhile is_space s = c # cs"
  have "\<not> is_space c"
    using a hd_dropWhile [of is_space s] by auto
  then have "length (dropWhile (\<lambda>x. \<not> is_space x) (c # cs)) \<le> length cs"
    by (simp add: length_dropWhile_le)
  moreover have "length (c # cs) \<le> length s"
    using a length_dropWhile_le [of is_space s] by simp
  ultimately show "(dropWhile (\<lambda>x. \<not> is_space x) (c # cs), s) \<in> measure length"
    by simp
qed

declare split.simps [simp del]

text \<open>\<^verbatim>\<open>' '.join(ws)\<close>\<close>

fun join_space :: "string list \<Rightarrow> string" where
  "join_space [] = []"
| "join_space [w] = w"
| "join_space (w # v # ws) = w @ CHR '' '' # join_space (v # ws)"



section \<open>utils.py\<close>






section \<open>Exceptions, data frames and the libraries\<close>

text \<open>
  The exceptions that the modelled code can meet. \<open>LibraryError\<close> stands for any other
  exception raised inside pandas, scikit-learn, \<^verbatim>\<open>re\<close>, \<^verbatim>\<open>math\<close> or \<^verbatim>\<open>requests\<close>.
\<close>

datatype exn = FileNotFoundError | KeyError | IndexError | AttributeError | TypeError
  | NotFittedError | LibraryError

text \<open>
  A parsed CSV file. The cells of the data files are text; \<open>None\<close> is a missing cell
  (NaN). A row maps a column name to its cell.
\<close>

type_synonym cell = "string option"

record dataframe =
  columns :: "string list"
  rows :: "(string \<Rightarrow> cell) list"

text \<open>A row has no cell outside the columns of its frame.\<close>

definition well_formed :: "dataframe \<Rightarrow> bool" where
  "well_formed df \<longleftrightarrow> (\<forall>r\<in>set (rows df). \<forall>col. col \<notin> set (columns df) \<longrightarrow> r col = None)"

text \<open>
  \<^verbatim>\<open>df[col].str\<close>: the column must exist (\<open>KeyError\<close>), and pandas gives the string
  accessor only to a text column: a column of a non-empty frame whose cells are all
  missing is read as a float column (\<open>AttributeError\<close>).
\<close>

definition str_column :: "dataframe \<Rightarrow> string \<Rightarrow> exn + cell list" where
  "str_column df col =
     (if col \<notin> set (columns df) then Inl KeyError
      else if rows df \<noteq> [] \<and> (\<forall>r\<in>set (rows df). r col = None) then Inl AttributeError
      else Inr (map (\<lambda>r. r col) (rows df)))"

text \<open>
  A fitted or unfitted \<^verbatim>\<open>Pipeline([tfidf, MultinomialNB])\<close>; a fitted one is
  identified by the documents and labels it was fitted on.
\<close>

datatype pipeline = Pipeline (fitted_on: "(string list \<times> cell list) option")

text \<open>
  What the code calls in scikit-learn, numpy and \<^verbatim>\<open>re\<close>, taken as parameters:
  \<^item> \<open>fit X y\<close>: the exception raised by \<^verbatim>\<open>Pipeline.fit\<close>, if any;
  \<^item> \<open>predict_proba X y text\<close>: the row of class probabilities for one query;
  \<^item> \<open>classes y\<close>: the attribute \<^verbatim>\<open>classes_\<close> of the fitted classifier;
  \<^item> \<open>argsort\<close>: \<^verbatim>\<open>np.argsort\<close> (the default kind is not a stable sort);
  \<^item> \<open>re_compile\<close>: \<^verbatim>\<open>re.compile\<close>, giving the search predicate of a pattern
    or the error of an ill-formed one.
  Probabilities are modelled as real numbers; the code only compares them and
  multiplies them by 100. The literal \<^verbatim>\<open>0.01\<close> is read as one hundredth.
\<close>

record library =
  fit :: "string list \<Rightarrow> cell list \<Rightarrow> exn option"
  predict_proba :: "string list \<Rightarrow> cell list \<Rightarrow> string \<Rightarrow> exn + real list"
  classes :: "cell list \<Rightarrow> string list"
  argsort :: "real list \<Rightarrow> nat list"
  re_compile :: "string \<Rightarrow> exn + (string \<Rightarrow> bool)"

text \<open>The contract of \<^verbatim>\<open>np.argsort\<close>: the indices of \<open>ps\<close>, ordered by ascending value.\<close>

definition is_argsort :: "real list \<Rightarrow> nat list \<Rightarrow> bool" where
  "is_argsort ps idx \<longleftrightarrow>
     sort idx = [0..<length ps] \<and> sorted (map (\<lambda>i. ps ! i) idx)"

text \<open>A stable argsort (insertion sort on the keys), one function that meets the contract.\<close>

definition stable_argsort :: "real list \<Rightarrow> nat list" where
  "stable_argsort ps = sort_key (\<lambda>i. ps ! i) [0..<length ps]"

section \<open>app.py: HealthcareAssistant\<close>

record assistant =
  diseases_df :: "dataframe option"
  precautions_df :: "dataframe option"
  model :: "pipeline option"
  symptoms_list :: "string list"
  diseases_list :: "cell list"

text \<open>The fields as \<^verbatim>\<open>__init__\<close> sets them before it loads anything.\<close>

definition new_assistant :: assistant where
  "new_assistant =
     \<lparr>diseases_df = None, precautions_df = None, model = None,
      symptoms_list = [], diseases_list = []\<rparr>"

text \<open>\<^verbatim>\<open>col.startswith('Symptom_')\<close>\<close>

definition is_symptom_column :: "string \<Rightarrow> bool" where
  "is_symptom_column col \<longleftrightarrow> take 8 col = ''Symptom_''"

subsection \<open>clean_data\<close>

text \<open>
  The stripped, non-missing cells of every symptom column, then
  \<^verbatim>\<open>sorted(set(s.strip().replace('_', ' ') for s in all_symptoms if s and s.strip()))\<close>.
\<close>

fun collect_symptoms :: "dataframe \<Rightarrow> string list \<Rightarrow> exn + string list" where
  "collect_symptoms df [] = Inr []"
| "collect_symptoms df (col # cols) =
     (case str_column df col of
        Inl e \<Rightarrow> Inl e
      | Inr cells \<Rightarrow>
          (case collect_symptoms df cols of
             Inl e \<Rightarrow> Inl e
           | Inr rest \<Rightarrow> Inr (map strip (List.map_filter id cells) @ rest)))"

definition clean_data :: "assistant \<Rightarrow> exn + assistant" where
  "clean_data a =
     (case diseases_df a of
        None \<Rightarrow> Inl TypeError
      | Some df \<Rightarrow>
          if ''Disease'' \<notin> set (columns df) then Inl KeyError
          else
            let ds = remdups (map (\<lambda>r. r ''Disease'') (rows df)) in
            (case collect_symptoms df (filter is_symptom_column (columns df)) of
               Inl e \<Rightarrow> Inl e
             | Inr all_symptoms \<Rightarrow>
                 Inr (a\<lparr>diseases_list := ds,
                        symptoms_list :=
                          sort (remdups (map (\<lambda>s. replace_underscore (strip s))
                            (filter (\<lambda>s. s \<noteq> [] \<and> strip s \<noteq> []) all_symptoms)))\<rparr>)))"

subsection \<open>load_data\<close>

text \<open>
  \<open>read_csv\<close> is the outcome of \<^verbatim>\<open>pd.read_csv\<close> on each path. Only
  \<open>FileNotFoundError\<close> is caught; the assignments made before it stay.
\<close>

definition load_data :: "(string \<Rightarrow> exn + dataframe) \<Rightarrow> assistant \<Rightarrow> exn + assistant" where
  "load_data read_csv a =
     (case read_csv ''DiseaseAndSymptoms.csv'' of
        Inl e \<Rightarrow> if e = FileNotFoundError then Inr a else Inl e
      | Inr d \<Rightarrow>
          let a1 = a\<lparr>diseases_df := Some d\<rparr> in
          (case read_csv ''Disease precaution.csv'' of
             Inl e \<Rightarrow> if e = FileNotFoundError then Inr a1 else Inl e
           | Inr p \<Rightarrow>
               (case clean_data (a1\<lparr>precautions_df := Some p\<rparr>) of
                  Inl e \<Rightarrow> if e = FileNotFoundError then Inr (a1\<lparr>precautions_df := Some p\<rparr>) else Inl e
                | Inr a2 \<Rightarrow> Inr a2)))"

subsection \<open>prepare_model\<close>

text \<open>The symptoms of one row: the non-missing symptom cells, stripped, underscores replaced, empty ones dropped.\<close>

definition row_symptoms :: "dataframe \<Rightarrow> (string \<Rightarrow> cell) \<Rightarrow> string list" where
  "row_symptoms df row =
     concat (map (\<lambda>col.
        if is_symptom_column col then
          (case row col of
             None \<Rightarrow> []
           | Some v \<Rightarrow> let symptom = replace_underscore (strip v) in
                       if symptom \<noteq> [] then [symptom] else [])
        else []) (columns df))"

fun training_data ::
  "dataframe \<Rightarrow> (string \<Rightarrow> cell) list \<Rightarrow> exn + (string list \<times> cell list)" where
  "training_data df [] = Inr ([], [])"
| "training_data df (row # rest) =
     (if ''Disease'' \<notin> set (columns df) then Inl KeyError
      else
        (case training_data df rest of
           Inl e \<Rightarrow> Inl e
         | Inr (X, y) \<Rightarrow>
             if row_symptoms df row \<noteq> []
             then Inr (join_space (row_symptoms df row) # X, row ''Disease'' # y)
             else Inr (X, y)))"

definition prepare_model :: "library \<Rightarrow> assistant \<Rightarrow> exn + assistant" where
  "prepare_model lib a =
     (case diseases_df a of
        None \<Rightarrow> Inr a
      | Some df \<Rightarrow>
          (case training_data df (rows df) of
             Inl e \<Rightarrow> Inl e
           | Inr (X_train, y_train) \<Rightarrow>
               if X_train \<noteq> [] \<and> y_train \<noteq> [] then
                 (case fit lib X_train y_train of
                    Some e \<Rightarrow> Inl e
                  | None \<Rightarrow> Inr (a\<lparr>model := Some (Pipeline (Some (X_train, y_train)))\<rparr>))
               else Inr (a\<lparr>model := Some (Pipeline None)\<rparr>)))"

text \<open>\<^verbatim>\<open>HealthcareAssistant()\<close>: \<^verbatim>\<open>load_data\<close>, then \<^verbatim>\<open>prepare_model\<close>.\<close>

definition init :: "library \<Rightarrow> (string \<Rightarrow> exn + dataframe) \<Rightarrow> exn + assistant" where
  "init lib read_csv =
     (case load_data read_csv new_assistant of
        Inl e \<Rightarrow> Inl e
      | Inr a \<Rightarrow> prepare_model lib a)"


subsection \<open>predict_disease\<close>

text \<open>\<^verbatim>\<open>self.model.predict_proba([symptoms_text])[0]\<close> and \<^verbatim>\<open>self.model.classes_\<close>\<close>

definition pipeline_predict_proba :: "library \<Rightarrow> pipeline \<Rightarrow> string \<Rightarrow> exn + real list" where
  "pipeline_predict_proba lib m text =
     (case fitted_on m of
        None \<Rightarrow> Inl NotFittedError
      | Some (X, y) \<Rightarrow> predict_proba lib X y text)"

definition pipeline_classes :: "library \<Rightarrow> pipeline \<Rightarrow> exn + string list" where
  "pipeline_classes lib m =
     (case fitted_on m of
        None \<Rightarrow> Inl AttributeError
      | Some (X, y) \<Rightarrow> Inr (classes lib y))"

text \<open>\<^verbatim>\<open>xs[-n:]\<close>\<close>

definition last_n :: "nat \<Rightarrow> 'a list \<Rightarrow> 'a list" where
  "last_n n xs = drop (length xs - n) xs"

text \<open>
  The loop over \<^verbatim>\<open>top_indices\<close>; \<open>predictions\<close> and \<open>confidences\<close> are the lists built
  so far. An index outside an array raises \<open>IndexError\<close>.
\<close>

fun collect_top ::
  "real list \<Rightarrow> string list \<Rightarrow> nat list \<Rightarrow> string list \<Rightarrow> real list
   \<Rightarrow> exn + (string list \<times> real list)" where
  "collect_top probabilities cls [] predictions confidences = Inr (predictions, confidences)"
| "collect_top probabilities cls (idx # rest) predictions confidences =
     (if length probabilities \<le> idx then Inl IndexError
      else if probabilities ! idx > 1 / 100 then
        (if length cls \<le> idx then Inl IndexError
         else collect_top probabilities cls rest
                (predictions @ [cls ! idx]) (confidences @ [probabilities ! idx * 100]))
      else collect_top probabilities cls rest predictions confidences)"

text \<open>The body of the \<^verbatim>\<open>try\<close> block.\<close>

definition predict_body :: "library \<Rightarrow> pipeline \<Rightarrow> string \<Rightarrow> exn + (string list \<times> real list)" where
  "predict_body lib m symptoms_text =
     (case pipeline_predict_proba lib m symptoms_text of
        Inl e \<Rightarrow> Inl e
      | Inr probabilities \<Rightarrow>
          (case pipeline_classes lib m of
             Inl e \<Rightarrow> Inl e
           | Inr cls \<Rightarrow>
               let top_indices = rev (last_n 5 (argsort lib probabilities))
               in collect_top probabilities cls top_indices [] []))"

text \<open>The indices that the loop keeps, in the order it visits them.\<close>

definition kept_indices :: "library \<Rightarrow> real list \<Rightarrow> nat list" where
  "kept_indices lib ps = filter (\<lambda>i. 1 / 100 < ps ! i) (rev (last_n 5 (argsort lib ps)))"

definition predict_disease :: "library \<Rightarrow> assistant \<Rightarrow> string \<Rightarrow> string list \<times> real list" where
  "predict_disease lib a symptoms_text =
     (case model a of
        None \<Rightarrow> ([], [])
      | Some m \<Rightarrow>
          (case predict_body lib m symptoms_text of
             Inl e \<Rightarrow> ([], [])
           | Inr r \<Rightarrow> r))"

subsection \<open>get_precautions\<close>

definition generic_advice :: "string list" where
  "generic_advice =
     [''Consult with a healthcare professional for proper diagnosis'',
      ''Rest and stay hydrated'',
      ''Monitor your symptoms closely'',
      ''Seek immediate medical attention if symptoms worsen'']"

definition precaution_columns :: "string list" where
  "precaution_columns = [''Precaution_1'', ''Precaution_2'', ''Precaution_3'', ''Precaution_4'']"

text \<open>
  \<^verbatim>\<open>Series.str.contains(pat, na=False)\<close> compiles \<open>pat\<close> as a regular expression
  (\<^verbatim>\<open>regex=True\<close> is the default) and searches each cell with it. A pattern made of
  ordinary characters and dots is searched here directly: an ordinary character matches
  itself and a dot matches any character but a newline. Every other pattern goes to
  \<open>re_compile\<close>.
\<close>

definition regex_special :: "char \<Rightarrow> bool" where
  "regex_special c \<longleftrightarrow> c \<in> set ''^$*+?{}[]|()'' \<or> c = CHR 0x5C"

fun match_here :: "string \<Rightarrow> string \<Rightarrow> bool" where
  "match_here [] s = True"
| "match_here (p # ps) [] = False"
| "match_here (p # ps) (c # cs) =
     ((if p = CHR ''.'' then c \<noteq> CHR 0x0A else p = c) \<and> match_here ps cs)"

fun dot_search :: "string \<Rightarrow> string \<Rightarrow> bool" where
  "dot_search pat [] = match_here pat []"
| "dot_search pat (c # cs) = (match_here pat (c # cs) \<or> dot_search pat cs)"

definition compile_pattern :: "library \<Rightarrow> string \<Rightarrow> exn + (string \<Rightarrow> bool)" where
  "compile_pattern lib pat =
     (if \<exists>c\<in>set pat. regex_special c then re_compile lib pat
      else Inr (dot_search pat))"

text \<open>The rows kept by the boolean mask of the exact match and of the partial match.\<close>

definition exact_rows :: "dataframe \<Rightarrow> string \<Rightarrow> (string \<Rightarrow> cell) list" where
  "exact_rows df disease =
     filter (\<lambda>r. case r ''Disease'' of None \<Rightarrow> False | Some d \<Rightarrow> lower d = lower disease)
       (rows df)"

definition partial_rows ::
  "library \<Rightarrow> dataframe \<Rightarrow> string \<Rightarrow> exn + (string \<Rightarrow> cell) list" where
  "partial_rows lib df disease =
     (case split (lower disease) of
        [] \<Rightarrow> Inl IndexError
      | token # _ \<Rightarrow>
          (case compile_pattern lib token of
             Inl e \<Rightarrow> Inl e
           | Inr found \<Rightarrow>
               Inr (filter (\<lambda>r. case r ''Disease'' of None \<Rightarrow> False | Some d \<Rightarrow> found (lower d))
                     (rows df))))"

text \<open>The loop over the four precaution columns, on the first row kept.\<close>

definition row_precautions :: "dataframe \<Rightarrow> (string \<Rightarrow> cell) \<Rightarrow> string list" where
  "row_precautions df row =
     concat (map (\<lambda>col.
        if col \<in> set (columns df) then
          (case row col of
             None \<Rightarrow> []
           | Some precaution \<Rightarrow> if strip precaution \<noteq> [] then [strip precaution] else [])
        else []) precaution_columns)"


text \<open>The body of the \<^verbatim>\<open>try\<close> block.\<close>

definition precautions_body :: "library \<Rightarrow> dataframe \<Rightarrow> string \<Rightarrow> exn + string list" where
  "precautions_body lib df disease =
     (case str_column df ''Disease'' of
        Inl e \<Rightarrow> Inl e
      | Inr _ \<Rightarrow>
          (case (if exact_rows df disease = [] then partial_rows lib df disease
                 else Inr (exact_rows df disease)) of
             Inl e \<Rightarrow> Inl e
           | Inr precautions \<Rightarrow>
               (case precautions of
                  [] \<Rightarrow> Inr generic_advice
                | row # _ \<Rightarrow> Inr (row_precautions df row))))"

definition get_precautions :: "library \<Rightarrow> assistant \<Rightarrow> string \<Rightarrow> string list" where
  "get_precautions lib a disease =
     (case precautions_df a of
        None \<Rightarrow> generic_advice
      | Some df \<Rightarrow>
          (case precautions_body lib df disease of
             Inl e \<Rightarrow> generic_advice
           | Inr r \<Rightarrow> r))"


section \<open>location_service.py\<close>

text \<open>
  A facility record. The keys \<^verbatim>\<open>phone\<close>, \<^verbatim>\<open>website\<close>, \<^verbatim>\<open>hours\<close>,
  \<^verbatim>\<open>specialties\<close> and \<^verbatim>\<open>place_id\<close> are display data that the ranking never reads;
  they are left out. Coordinates and distances are finite floats, modelled as reals.
\<close>

record hospital_info =
  name :: string
  ftype :: string
  distance :: real
  rating :: real
  address :: string
  lat :: real
  lon :: real

text \<open>A result of the Google Places search and of the details request.\<close>

record place =
  geometry :: "(real \<times> real) option"
  place_id :: "string option"
  place_name :: "string option"
  place_rating :: "real option"
  vicinity :: "string option"

record place_details =
  details_rating :: "real option"

record gmaps =
  places_nearby :: "real \<times> real \<Rightarrow> int \<Rightarrow> string \<Rightarrow> exn + place list"
  place :: "string \<Rightarrow> exn + place_details"

text \<open>An element of the Overpass answer.\<close>

record osm_element =
  tags :: "(string \<Rightarrow> string option) option"
  etype :: "string option"
  elat :: "real option"
  elon :: "real option"
  center :: "(real \<times> real) option"

text \<open>
  The service with what it reaches outside: the Google Maps client (if a key is
  configured), the Overpass request (status code and elements, or the exception of
  \<^verbatim>\<open>requests.post\<close> or \<^verbatim>\<open>response.json\<close>), and the floating-point arithmetic of
  \<^verbatim>\<open>_calculate_distance\<close> and \<^verbatim>\<open>round(distance, 1)\<close>.
\<close>

record location_service =
  gmaps_client :: "gmaps option"
  overpass :: "real \<Rightarrow> real \<Rightarrow> int \<Rightarrow> exn + (nat \<times> osm_element list)"
  calculate_distance :: "real \<Rightarrow> real \<Rightarrow> real \<Rightarrow> real \<Rightarrow> exn + real"
  round1 :: "real \<Rightarrow> real"

definition get_fallback_hospitals :: "real \<Rightarrow> real \<Rightarrow> int \<Rightarrow> hospital_info list" where
  "get_fallback_hospitals user_lat user_lon radius_km =
     [\<lparr>name = ''General Hospital'', ftype = ''Hospital'', distance = 25 / 10,
       rating = 42 / 10, address = ''Near your location'',
       lat = user_lat + 1 / 100, lon = user_lon + 1 / 100\<rparr>,
      \<lparr>name = ''Community Health Center'', ftype = ''Clinic'', distance = 18 / 10,
       rating = 4, address = ''Near your location'',
       lat = user_lat - 1 / 100, lon = user_lon - 1 / 100\<rparr>]"

text \<open>
  \<^verbatim>\<open>_extract_place_info\<close>: any exception inside it (a missing key, an arithmetic
  error) makes it return \<^verbatim>\<open>None\<close>.
\<close>

definition extract_place_info ::
  "location_service \<Rightarrow> place \<Rightarrow> real \<Rightarrow> real \<Rightarrow> string \<Rightarrow> hospital_info option" where
  "extract_place_info svc p user_lat user_lon facility_type =
     (case geometry p of
        None \<Rightarrow> None
      | Some (place_lat, place_lon) \<Rightarrow>
          (case calculate_distance svc user_lat user_lon place_lat place_lon of
             Inl e \<Rightarrow> None
           | Inr d \<Rightarrow>
               (case place_id p of
                  None \<Rightarrow> None
                | Some pid \<Rightarrow>
                    let details =
                          (case gmaps_client svc of
                             None \<Rightarrow> None
                           | Some g \<Rightarrow> (case place g pid of Inl e \<Rightarrow> None | Inr r \<Rightarrow> Some r));
                        r0 = (case place_rating p of None \<Rightarrow> 0 | Some r \<Rightarrow> r)
                    in Some
                      \<lparr>name = (case place_name p of None \<Rightarrow> ''Unknown Hospital'' | Some n \<Rightarrow> n),
                       ftype = facility_type,
                       distance = round1 svc d,
                       rating =
                         (if r0 \<noteq> 0 then r0
                          else (case details of
                                  None \<Rightarrow> 0
                                | Some dt \<Rightarrow> (case details_rating dt of None \<Rightarrow> 0 | Some r \<Rightarrow> r))),
                       address = (case vicinity p of None \<Rightarrow> ''Address not available'' | Some v \<Rightarrow> v),
                       lat = place_lat, lon = place_lon\<rparr>)))"

text \<open>\<^verbatim>\<open>', '.join(parts)\<close>\<close>

fun join_comma :: "string list \<Rightarrow> string" where
  "join_comma [] = []"
| "join_comma [w] = w"
| "join_comma (w # v # ws) = w @ '', '' @ join_comma (v # ws)"

definition format_osm_address :: "(string \<Rightarrow> string option) \<Rightarrow> string" where
  "format_osm_address tg =
     (let address_parts =
            List.map_filter tg [''addr:housenumber'', ''addr:street'', ''addr:city'', ''addr:state'']
      in if address_parts \<noteq> [] then join_comma address_parts else ''Address not available'')"

text \<open>The loop over the elements; an exception leaves the loop.\<close>

fun osm_elements ::
  "location_service \<Rightarrow> real \<Rightarrow> real \<Rightarrow> osm_element list \<Rightarrow> hospital_info list
   \<Rightarrow> exn + hospital_info list" where
  "osm_elements svc user_lat user_lon [] hospitals = Inr hospitals"
| "osm_elements svc user_lat user_lon (el # rest) hospitals =
     (case tags el of
        None \<Rightarrow> osm_elements svc user_lat user_lon rest hospitals
      | Some tg \<Rightarrow>
          (case etype el of
             None \<Rightarrow> Inl KeyError
           | Some t \<Rightarrow>
               (case (if t = ''node''
                      then (case (elat el, elon el) of
                              (Some a, Some b) \<Rightarrow> Inr (Some (a, b))
                            | _ \<Rightarrow> Inl KeyError)
                      else Inr (center el)) of
                  Inl e \<Rightarrow> Inl e
                | Inr None \<Rightarrow> osm_elements svc user_lat user_lon rest hospitals
                | Inr (Some (elem_lat, elem_lon)) \<Rightarrow>
                    (case calculate_distance svc user_lat user_lon elem_lat elem_lon of
                       Inl e \<Rightarrow> Inl e
                     | Inr d \<Rightarrow>
                         osm_elements svc user_lat user_lon rest
                           (hospitals @
                            [\<lparr>name = (case tg ''name'' of
                                        None \<Rightarrow> ''Unknown Medical Facility'' | Some n \<Rightarrow> n),
                              ftype = (if tg ''amenity'' = Some ''hospital''
                                       then ''Hospital'' else ''Clinic''),
                              distance = round1 svc d,
                              rating = 4,
                              address = format_osm_address tg,
                              lat = elem_lat, lon = elem_lon\<rparr>])))))"

text \<open>\<^verbatim>\<open>hospitals.sort(key=lambda x: x['distance'])\<close> is a stable sort; then \<^verbatim>\<open>hospitals[:15]\<close>.\<close>

definition sort_and_truncate :: "hospital_info list \<Rightarrow> hospital_info list" where
  "sort_and_truncate hospitals = take 15 (sort_key distance hospitals)"

definition search_osm_hospitals ::
  "location_service \<Rightarrow> real \<Rightarrow> real \<Rightarrow> int \<Rightarrow> hospital_info list" where
  "search_osm_hospitals svc user_lat user_lon radius_km =
     (case overpass svc user_lat user_lon radius_km of
        Inl e \<Rightarrow> get_fallback_hospitals user_lat user_lon radius_km
      | Inr (status_code, elements) \<Rightarrow>
          if status_code = 200 then
            (case osm_elements svc user_lat user_lon elements [] of
               Inl e \<Rightarrow> get_fallback_hospitals user_lat user_lon radius_km
             | Inr hospitals \<Rightarrow> sort_and_truncate hospitals)
          else sort_and_truncate [])"

definition find_nearby_hospitals_real ::
  "location_service \<Rightarrow> real \<Rightarrow> real \<Rightarrow> int \<Rightarrow> hospital_info list" where
  "find_nearby_hospitals_real svc user_lat user_lon radius_km =
     (case gmaps_client svc of
        None \<Rightarrow> search_osm_hospitals svc user_lat user_lon radius_km
      | Some g \<Rightarrow>
          (case places_nearby g (user_lat, user_lon) (radius_km * 1000) ''hospital'' of
             Inl e \<Rightarrow> get_fallback_hospitals user_lat user_lon radius_km
           | Inr places_result \<Rightarrow>
               (case places_nearby g (user_lat, user_lon) (radius_km * 1000) ''doctor'' of
                  Inl e \<Rightarrow> get_fallback_hospitals user_lat user_lon radius_km
                | Inr clinics_result \<Rightarrow>
                    sort_and_truncate
                      (List.map_filter
                         (\<lambda>p. extract_place_info svc p user_lat user_lon ''Hospital'')
                         places_result
                       @ List.map_filter
                           (\<lambda>p. extract_place_info svc p user_lat user_lon ''Clinic'')
                           clinics_result))))"


section \<open>The specification's vocabulary\<close>


text \<open>The class priors of a multinomial classifier: the share of each class among the training labels.\<close>

definition class_priors :: "cell list \<Rightarrow> string list \<Rightarrow> real list" where
  "class_priors y cls = map (\<lambda>c. real (count_list y (Some c)) / real (length y)) cls"

text \<open>The posterior probability of every class for a query, when the matcher gives one.\<close>

definition posteriors :: "library \<Rightarrow> assistant \<Rightarrow> string \<Rightarrow> (string \<times> real) list" where
  "posteriors lib a text =
     (case model a of
        None \<Rightarrow> []
      | Some m \<Rightarrow>
          (case (pipeline_predict_proba lib m text, pipeline_classes lib m) of
             (Inr ps, Inr cls) \<Rightarrow> zip cls ps
           | _ \<Rightarrow> []))"

text \<open>Substring containment, Python's \<^verbatim>\<open>t in s\<close>.\<close>

fun contains :: "string \<Rightarrow> string \<Rightarrow> bool" where
  "contains t [] = (t = [])"
| "contains t (c # cs) = (take (length t) (c # cs) = t \<or> contains t cs)"

text \<open>
  The lookup as the specification words it: the first row with a case-insensitive exact
  match, else the first row whose lower-cased name contains the lower-cased first token
  of the query, else the generic list.
\<close>

definition substring_rows :: "dataframe \<Rightarrow> string \<Rightarrow> (string \<Rightarrow> cell) list" where
  "substring_rows df disease =
     (case split (lower disease) of
        [] \<Rightarrow> []
      | token # _ \<Rightarrow>
          filter (\<lambda>r. case r ''Disease'' of None \<Rightarrow> False | Some d \<Rightarrow> contains token (lower d))
            (rows df))"

definition lookup_spec :: "dataframe \<Rightarrow> string \<Rightarrow> string list" where
  "lookup_spec df disease =
     (case exact_rows df disease of
        row # _ \<Rightarrow> row_precautions df row
      | [] \<Rightarrow>
          (case substring_rows df disease of
             row # _ \<Rightarrow> row_precautions df row
           | [] \<Rightarrow> generic_advice))"

text \<open>
  The first token of the query, if there is one, is made of ordinary characters only: no
  character that a regular expression reads as an operator.
\<close>

definition literal_token :: "string \<Rightarrow> bool" where
  "literal_token disease \<longleftrightarrow>
     (case split (lower disease) of
        [] \<Rightarrow> True
      | token # _ \<Rightarrow> \<forall>c\<in>set token. \<not> regex_special c \<and> c \<noteq> CHR ''.'')"

section \<open>A small knowledge base\<close>

text \<open>
  Two diseases with the same two symptoms, and a precaution table of two rows, one of
  them without any precaution. The library instance sorts stably, orders the classes as
  \<^verbatim>\<open>np.unique\<close> does and answers every query with the class priors, which is what a
  multinomial classifier returns on this table, whose two documents have the same words.
\<close>

definition demo_diseases :: dataframe where
  "demo_diseases =
     \<lparr>columns = [''Disease'', ''Symptom_1'', ''Symptom_2''],
      rows = [map_of [(''Disease'', ''Cold''), (''Symptom_1'', '' cough''), (''Symptom_2'', '' high_fever'')],
              map_of [(''Disease'', ''Flu''), (''Symptom_1'', '' high_fever''), (''Symptom_2'', '' cough'')]]\<rparr>"

definition demo_precautions :: dataframe where
  "demo_precautions =
     \<lparr>columns = [''Disease'', ''Precaution_1'', ''Precaution_2'', ''Precaution_3'', ''Precaution_4''],
      rows = [map_of [(''Disease'', ''Stroke''), (''Precaution_1'', ''call emergency services''),
                      (''Precaution_3'', '' rest ''), (''Precaution_4'', ''  '')],
              map_of [(''Disease'', ''Flu'')]]\<rparr>"

definition demo_files :: "string \<Rightarrow> exn + dataframe" where
  "demo_files path =
     (if path = ''DiseaseAndSymptoms.csv'' then Inr demo_diseases
      else if path = ''Disease precaution.csv'' then Inr demo_precautions
      else Inl FileNotFoundError)"

text \<open>A directory without the data files.\<close>

definition no_files :: "string \<Rightarrow> exn + dataframe" where
  "no_files path = Inl FileNotFoundError"

definition demo_classes :: "cell list \<Rightarrow> string list" where
  "demo_classes y = sort (remdups (List.map_filter id y))"

definition demo_lib :: library where
  "demo_lib =
     \<lparr>fit = (\<lambda>X y. None),
      predict_proba = (\<lambda>X y text. Inr (class_priors y (demo_classes y))),
      classes = demo_classes,
      argsort = stable_argsort,
      re_compile = (\<lambda>pat. Inl LibraryError)\<rparr>"

definition demo_assistant :: assistant where
  "demo_assistant =
     \<lparr>diseases_df = Some demo_diseases,
      precautions_df = Some demo_precautions,
      model = Some (Pipeline (Some ([''cough high fever'', ''high fever cough''], [Some ''Cold'', Some ''Flu'']))),
      symptoms_list = [''cough'', ''high fever''],
      diseases_list = [Some ''Cold'', Some ''Flu'']\<rparr>"

text \<open>A service without a Google Maps key whose Overpass request times out.\<close>

definition demo_offline :: location_service where
  "demo_offline =
     \<lparr>gmaps_client = None,
      overpass = (\<lambda>user_lat user_lon radius_km. Inl LibraryError),
      calculate_distance = (\<lambda>lat1 lon1 lat2 lon2. Inl LibraryError),
      round1 = (\<lambda>d. d)\<rparr>"


section \<open>Strings: normalisation\<close>



































section \<open>Ranking\<close>


lemma collect_top_Inr:
  "collect_top ps cls ix P C = Inr r \<Longrightarrow>
   r = (P @ map (\<lambda>i. cls ! i) (filter (\<lambda>i. 1 / 100 < ps ! i) ix),
        C @ map (\<lambda>i. ps ! i * 100) (filter (\<lambda>i. 1 / 100 < ps ! i) ix))
   \<and> (\<forall>i\<in>set ix. i < length ps)
   \<and> (\<forall>i\<in>set (filter (\<lambda>i. 1 / 100 < ps ! i) ix). i < length cls)"
proof (induction ix arbitrary: P C)
  case Nil
  then show ?case by simp
next
  case (Cons idx rest)
  show ?case
  proof (cases "1 / 100 < ps ! idx")
    case True
    with Cons.prems have b: "idx < length ps" "idx < length cls"
      and rec: "collect_top ps cls rest (P @ [cls ! idx]) (C @ [ps ! idx * 100]) = Inr r"
      by (auto split: if_splits)
    from Cons.IH [OF rec] True b show ?thesis by simp
  next
    case False
    with Cons.prems have b: "idx < length ps"
      and rec: "collect_top ps cls rest P C = Inr r"
      by (auto split: if_splits)
    from Cons.IH [OF rec] False b show ?thesis by simp
  qed
qed


lemma predict_disease_cases:
  "predict_disease lib a text = ([], []) \<or>
   (\<exists>X y ps. model a = Some (Pipeline (Some (X, y))) \<and> predict_proba lib X y text = Inr ps
      \<and> predict_disease lib a text =
          (map (\<lambda>i. classes lib y ! i) (kept_indices lib ps),
           map (\<lambda>i. ps ! i * 100) (kept_indices lib ps))
      \<and> (\<forall>i\<in>set (kept_indices lib ps). i < length ps \<and> i < length (classes lib y)))"
proof (cases "model a")
  case None
  then show ?thesis by (simp add: predict_disease_def)
next
  case (Some m)
  show ?thesis
  proof (cases "predict_body lib m text")
    case (Inl e)
    with Some show ?thesis by (simp add: predict_disease_def)
  next
    case (Inr r)
    then obtain X y where f: "fitted_on m = Some (X, y)"
      by (cases "fitted_on m")
        (auto simp: predict_body_def pipeline_predict_proba_def)
    then have m: "m = Pipeline (Some (X, y))" by (cases m) simp
    from Inr f obtain ps where ps: "predict_proba lib X y text = Inr ps"
      by (cases "predict_proba lib X y text")
        (auto simp: predict_body_def pipeline_predict_proba_def)
    from Inr f ps have
      c: "collect_top ps (classes lib y) (rev (last_n 5 (argsort lib ps))) [] [] = Inr r"
      by (simp add: predict_body_def pipeline_predict_proba_def pipeline_classes_def)
    from collect_top_Inr [OF c] have
      "r = (map (\<lambda>i. classes lib y ! i) (kept_indices lib ps),
            map (\<lambda>i. ps ! i * 100) (kept_indices lib ps))"
      and "\<forall>i\<in>set (kept_indices lib ps). i < length ps \<and> i < length (classes lib y)"
      by (auto simp: kept_indices_def)
    moreover have "predict_disease lib a text = r"
      using Some Inr by (simp add: predict_disease_def)
    ultimately show ?thesis using Some m ps by auto
  qed
qed

lemma is_argsort_sorted:
  assumes "is_argsort ps idx"
  shows "sorted_wrt (\<ge>) (map (\<lambda>i. ps ! i * 100) (filter Q (rev (last_n n idx))))"
proof -
  have "sorted_wrt (\<lambda>i j. ps ! i \<le> ps ! j) idx"
    using assms by (simp add: is_argsort_def sorted_map)
  then have "sorted_wrt (\<lambda>i j. ps ! i \<le> ps ! j) (last_n n idx)"
    by (simp add: last_n_def sorted_wrt_drop)
  then have "sorted_wrt (\<lambda>i j. ps ! j \<le> ps ! i) (rev (last_n n idx))"
    by (simp add: sorted_wrt_rev)
  then have "sorted_wrt (\<lambda>i j. ps ! j \<le> ps ! i) (filter Q (rev (last_n n idx)))"
    by (rule sorted_wrt_filter)
  then show ?thesis
    by (simp add: sorted_wrt_map)
qed






lemma stable_argsort_ok: "is_argsort ps (stable_argsort ps)"
proof -
  have "mset (stable_argsort ps) = mset [0..<length ps]"
    by (simp add: stable_argsort_def)
  moreover have "sorted [0..<length ps]" by simp
  ultimately have "sort (stable_argsort ps) = [0..<length ps]"
    using properties_for_sort by metis
  moreover have "sorted (map (\<lambda>i. ps ! i) (stable_argsort ps))"
    by (simp add: stable_argsort_def)
  ultimately show ?thesis by (simp add: is_argsort_def)
qed

lemma init_demo: "init demo_lib demo_files = Inr demo_assistant"
  by (simp add: init_def load_data_def demo_files_def new_assistant_def clean_data_def
      demo_diseases_def demo_precautions_def is_symptom_column_def str_column_def
      List.map_filter_simps strip_def is_space_def replace_underscore_def
      prepare_model_def row_symptoms_def demo_lib_def demo_assistant_def Let_def)


text \<open>
  C1 (amended). Whenever \<^verbatim>\<open>np.argsort\<close> meets its contract, the confidences returned
  by \<^verbatim>\<open>predict_disease\<close> are in non-increasing order: each one is at least the next,
  and equal ones may follow each other. The labels come in the order of the kept class
  indices, which is the reverse of the order \<^verbatim>\<open>np.argsort\<close> gives them; the order in
  which labels were first seen in the training data plays no part.
\<close>

theorem predict_disease_descending:
  assumes "\<And>ps. is_argsort ps (argsort lib ps)"
  shows "sorted_wrt (\<ge>) (snd (predict_disease lib a text))
     \<and> (predict_disease lib a text = ([], []) \<or>
        (\<exists>X y ps. model a = Some (Pipeline (Some (X, y)))
           \<and> predict_proba lib X y text = Inr ps
           \<and> predict_disease lib a text =
               (map (\<lambda>i. classes lib y ! i) (kept_indices lib ps),
                map (\<lambda>i. ps ! i * 100) (kept_indices lib ps))))"
proof -
  from predict_disease_cases [of lib a "text"]
  consider "predict_disease lib a text = ([], [])"
    | X y ps where "model a = Some (Pipeline (Some (X, y)))"
        "predict_proba lib X y text = Inr ps"
        "predict_disease lib a text =
           (map (\<lambda>i. classes lib y ! i) (kept_indices lib ps),
            map (\<lambda>i. ps ! i * 100) (kept_indices lib ps))"
    by blast
  then show ?thesis
  proof cases
    case 1
    then show ?thesis by simp
  next
    case 2
    have "sorted_wrt (\<ge>) (map (\<lambda>i. ps ! i * 100) (kept_indices lib ps))"
      unfolding kept_indices_def by (rule is_argsort_sorted [OF assms])
    with 2 show ?thesis by auto
  qed
qed

theorem predict_disease_descending_witness:
  "sorted_wrt (\<ge>) (snd (predict_disease demo_lib demo_assistant ''fever''))
   \<and> predict_disease demo_lib demo_assistant ''fever'' \<noteq> ([], [])"
proof -
  have h: "\<And>ps. is_argsort ps (argsort demo_lib ps)"
    by (simp add: demo_lib_def stable_argsort_ok)
  have "predict_disease demo_lib demo_assistant ''fever'' \<noteq> ([], [])"
    by code_simp
  then show ?thesis
    using predict_disease_descending [of demo_lib demo_assistant "''fever''", OF h] by blast
qed

text \<open>
  C1 as stated fails on the small knowledge base: both classes have probability one half,
  the two confidences are equal, so the sequence is not strictly descending, and
  \<open>Flu\<close> comes before \<open>Cold\<close> although \<open>Cold\<close> is seen first in the data.
\<close>

theorem predict_disease_tie_counterexample:
  "snd (predict_disease demo_lib demo_assistant ''fever'') = [50, 50]
   \<and> \<not> sorted_wrt (>) (snd (predict_disease demo_lib demo_assistant ''fever''))
   \<and> fst (predict_disease demo_lib demo_assistant ''fever'') = [''Flu'', ''Cold'']
   \<and> diseases_list demo_assistant = [Some ''Cold'', Some ''Flu'']"
  by code_simp

text \<open>
  C2. \<^verbatim>\<open>predict_disease\<close> returns as many labels as confidences and at most five of
  them; every returned pair is a class with its posterior probability times 100, and the
  confidence is strictly above 1 and, the probabilities of the classifier being at most
  1, at most 100.
\<close>

theorem predict_disease_bounds:
  assumes "\<And>X y ps. predict_proba lib X y text = Inr ps \<Longrightarrow> \<forall>p\<in>set ps. p \<le> 1"
  shows "length (fst (predict_disease lib a text)) = length (snd (predict_disease lib a text))
     \<and> length (snd (predict_disease lib a text)) \<le> 5
     \<and> (\<forall>(d, c)\<in>set (zip (fst (predict_disease lib a text)) (snd (predict_disease lib a text))).
          1 < c \<and> c \<le> 100 \<and> (\<exists>p. (d, p) \<in> set (posteriors lib a text) \<and> c = p * 100))"
proof -
  from predict_disease_cases [of lib a "text"]
  consider "predict_disease lib a text = ([], [])"
    | X y ps where "model a = Some (Pipeline (Some (X, y)))"
        "predict_proba lib X y text = Inr ps"
        "predict_disease lib a text =
           (map (\<lambda>i. classes lib y ! i) (kept_indices lib ps),
            map (\<lambda>i. ps ! i * 100) (kept_indices lib ps))"
        "\<forall>i\<in>set (kept_indices lib ps). i < length ps \<and> i < length (classes lib y)"
    by blast
  then show ?thesis
  proof cases
    case 1
    then show ?thesis by simp
  next
    case 2
    let ?k = "kept_indices lib ps"
    have len: "length ?k \<le> 5"
    proof -
      have "length ?k \<le> length (rev (last_n 5 (argsort lib ps)))"
        unfolding kept_indices_def by (rule length_filter_le)
      also have "\<dots> \<le> 5" by (simp add: last_n_def)
      finally show ?thesis .
    qed
    have post: "posteriors lib a text = zip (classes lib y) ps"
      using 2(1,2)
      by (simp add: posteriors_def pipeline_predict_proba_def pipeline_classes_def)
    have each: "1 < ps ! i * 100 \<and> ps ! i * 100 \<le> 100
        \<and> (\<exists>p. (classes lib y ! i, p) \<in> set (posteriors lib a text) \<and> ps ! i * 100 = p * 100)"
      if i: "i \<in> set ?k" for i
    proof -
      have b: "i < length ps" "i < length (classes lib y)" using 2(4) i by auto
      have gt: "1 / 100 < ps ! i" using i by (simp add: kept_indices_def)
      have le: "ps ! i \<le> 1" using assms [OF 2(2)] b(1) by simp
      have "(classes lib y ! i, ps ! i) \<in> set (zip (classes lib y) ps)"
        using b by (auto simp: in_set_zip)
      then show ?thesis using gt le post by auto
    qed
    have z: "zip (map (\<lambda>i. classes lib y ! i) ?k) (map (\<lambda>i. ps ! i * 100) ?k)
             = map (\<lambda>i. (classes lib y ! i, ps ! i * 100)) ?k"
      by (simp add: zip_map_map zip_same_conv_map)
    show ?thesis
      unfolding 2(3) fst_conv snd_conv z using len each by auto
  qed
qed

theorem predict_disease_bounds_witness:
  "predict_disease demo_lib demo_assistant ''fever'' = ([''Flu'', ''Cold''], [50, 50])
   \<and> length (snd (predict_disease demo_lib demo_assistant ''fever'')) \<le> 5
   \<and> (1::real) < 50 \<and> (50::real) \<le> 100
   \<and> (\<exists>p. (''Flu'', p) \<in> set (posteriors demo_lib demo_assistant ''fever'') \<and> (50::real) = p * 100)"
proof -
  let ?r = "predict_disease demo_lib demo_assistant ''fever''"
  have h: "\<forall>p\<in>set ps. p \<le> 1"
    if "predict_proba demo_lib X y ''fever'' = Inr ps" for X y ps
  proof -
    from that have ps: "ps = class_priors y (demo_classes y)"
      by (simp add: demo_lib_def)
    have "real (count_list y c) / real (length y) \<le> 1" for c
      using count_le_length [of y c] by (simp add: divide_le_eq_1)
    then show ?thesis by (auto simp: ps class_priors_def)
  qed
  have e: "?r = ([''Flu'', ''Cold''], [50, 50])"
    by code_simp
  have b: "length (fst ?r) = length (snd ?r) \<and> length (snd ?r) \<le> 5 \<and>
    (\<forall>(d, c)\<in>set (zip (fst ?r) (snd ?r)).
         1 < c \<and> c \<le> 100
         \<and> (\<exists>p. (d, p) \<in> set (posteriors demo_lib demo_assistant ''fever'') \<and> c = p * 100))"
    by (rule predict_disease_bounds [of demo_lib "''fever''" demo_assistant]) (rule h)
  have m: "(''Flu'', 50) \<in> set (zip (fst ?r) (snd ?r))"
    by (simp add: e)
  from b have l: "length (snd ?r) \<le> 5" by (elim conjE)
  from b have "\<forall>(d, c)\<in>set (zip (fst ?r) (snd ?r)).
         1 < c \<and> c \<le> 100
         \<and> (\<exists>p. (d, p) \<in> set (posteriors demo_lib demo_assistant ''fever'') \<and> c = p * 100)"
    by (elim conjE)
  from bspec [OF this m]
  have f: "(1::real) < 50 \<and> (50::real) \<le> 100
      \<and> (\<exists>p. (''Flu'', p) \<in> set (posteriors demo_lib demo_assistant ''fever'') \<and> (50::real) = p * 100)"
    by simp
  show ?thesis using e l f by (intro conjI) (elim conjE, assumption)+
qed

text \<open>
  C5. Without a model \<^verbatim>\<open>predict_disease\<close> returns two empty lists, and so it does
  when anything inside the \<^verbatim>\<open>try\<close> block raises; it never raises itself.
\<close>

theorem predict_disease_never_raises:
  "(model a = None \<longrightarrow> predict_disease lib a text = ([], []))
   \<and> (\<forall>m e. model a = Some m \<and> predict_body lib m text = Inl e
         \<longrightarrow> predict_disease lib a text = ([], []))"
  by (simp add: predict_disease_def)

theorem predict_disease_never_raises_witness:
  "model new_assistant = None
   \<and> predict_disease demo_lib new_assistant ''fever'' = ([], [])
   \<and> model (new_assistant\<lparr>model := Some (Pipeline None)\<rparr>) = Some (Pipeline None)
   \<and> predict_body demo_lib (Pipeline None) ''fever'' = Inl NotFittedError
   \<and> predict_disease demo_lib (new_assistant\<lparr>model := Some (Pipeline None)\<rparr>) ''fever'' = ([], [])"
proof -
  have 1: "model new_assistant = None" by (simp add: new_assistant_def)
  have 2: "model (new_assistant\<lparr>model := Some (Pipeline None)\<rparr>) = Some (Pipeline None)"
    by simp
  have 3: "predict_body demo_lib (Pipeline None) ''fever'' = Inl NotFittedError"
    by (simp add: predict_body_def pipeline_predict_proba_def)
  show ?thesis
    using 1 2 3 predict_disease_never_raises [of new_assistant demo_lib "''fever''"]
      predict_disease_never_raises
        [of "new_assistant\<lparr>model := Some (Pipeline None)\<rparr>" demo_lib "''fever''"]
    by blast
qed






section \<open>Precaution lookup\<close>












text \<open>
  C3. The lookup goes from the exact match to the partial match to the generic list, but
  the partial match is a regular-expression search, not a substring test. For the query
  \<open>St. Anthony fire\<close> no name matches exactly and no lower-cased name contains the token
  \<open>st.\<close>, so the lookup the claim describes gives the generic list; the code returns the
  precautions of \<open>Stroke\<close>, because the dot matches the \<open>r\<close>.
\<close>

theorem get_precautions_regex_token:
  "get_precautions demo_lib demo_assistant ''St. Anthony fire'' = [''call emergency services'', ''rest'']
   \<and> length (exact_rows demo_precautions ''St. Anthony fire'') = 0
   \<and> length (substring_rows demo_precautions ''St. Anthony fire'') = 0
   \<and> lookup_spec demo_precautions ''St. Anthony fire'' = generic_advice"
  by code_simp


text \<open>
  For a first token of ordinary characters the code and the lookup of the specification
  agree.
\<close>

lemma match_here_literal:
  "CHR ''.'' \<notin> set pat \<Longrightarrow> match_here pat s = (take (length pat) s = pat)"
  by (induction pat s rule: match_here.induct) auto

lemma dot_search_literal:
  "CHR ''.'' \<notin> set pat \<Longrightarrow> dot_search pat s = contains pat s"
  by (induction s) (auto simp: match_here_literal)

lemma partial_rows_literal:
  assumes "literal_token disease"
  shows "partial_rows lib df disease =
           (if split (lower disease) = [] then Inl IndexError
            else Inr (substring_rows df disease))"
proof (cases "split (lower disease)")
  case Nil
  then show ?thesis by (simp add: partial_rows_def)
next
  case (Cons token rest)
  with assms have lit: "\<forall>c\<in>set token. \<not> regex_special c" and dot: "CHR ''.'' \<notin> set token"
    by (auto simp: literal_token_def)
  have c: "compile_pattern lib token = Inr (dot_search token)"
    using lit by (simp add: compile_pattern_def)
  have "dot_search token = contains token"
    using dot_search_literal [OF dot] by (intro ext)
  then show ?thesis
    using Cons c by (simp add: partial_rows_def substring_rows_def)
qed

lemma get_precautions_literal:
  assumes df: "precautions_df a = Some df"
    and wf: "well_formed df"
    and lit: "literal_token disease"
  shows "get_precautions lib a disease = lookup_spec df disease"
proof (cases "str_column df ''Disease''")
  case (Inl e)
  have none: "\<forall>r\<in>set (rows df). r ''Disease'' = None"
    using Inl wf by (auto simp: str_column_def well_formed_def split: if_splits)
  then have "exact_rows df disease = []" "substring_rows df disease = []"
    by (auto simp: exact_rows_def substring_rows_def filter_empty_conv split: list.splits)
  then have "lookup_spec df disease = generic_advice"
    by (simp add: lookup_spec_def)
  moreover have "get_precautions lib a disease = generic_advice"
    using df Inl by (simp add: get_precautions_def precautions_body_def)
  ultimately show ?thesis by simp
next
  case (Inr cells)
  show ?thesis
  proof (cases "exact_rows df disease")
    case (Cons row rest)
    then show ?thesis
      using df Inr by (simp add: get_precautions_def precautions_body_def lookup_spec_def)
  next
    case Nil
    show ?thesis
    proof (cases "split (lower disease) = []")
      case True
      then have "substring_rows df disease = []" by (simp add: substring_rows_def)
      then show ?thesis
        using df Inr Nil True partial_rows_literal [OF lit, of lib df]
        by (simp add: get_precautions_def precautions_body_def lookup_spec_def)
    next
      case False
      then show ?thesis
        using df Inr Nil partial_rows_literal [OF lit, of lib df]
        by (simp add: get_precautions_def precautions_body_def lookup_spec_def
            split: list.splits)
    qed
  qed
qed

section \<open>Startup\<close>


lemma collect_symptoms_no_rows:
  "rows df = [] \<Longrightarrow> set cols \<subseteq> set (columns df) \<Longrightarrow> collect_symptoms df cols = Inr []"
  by (induction cols) (auto simp: str_column_def List.map_filter_simps)

lemma clean_data_no_rows:
  assumes "diseases_df a = Some d" "rows d = []" "''Disease'' \<in> set (columns d)"
  shows "clean_data a = Inr (a\<lparr>diseases_list := [], symptoms_list := []\<rparr>)"
proof -
  have "collect_symptoms d (filter is_symptom_column (columns d)) = Inr []"
    using assms(2) by (intro collect_symptoms_no_rows) auto
  then show ?thesis using assms by (simp add: clean_data_def)
qed

lemma init_disease_file_missing:
  "read_csv ''DiseaseAndSymptoms.csv'' = Inl FileNotFoundError \<Longrightarrow> init lib read_csv = Inr new_assistant"
  by (simp add: init_def load_data_def prepare_model_def new_assistant_def )

lemma init_precaution_file_missing:
  "read_csv ''DiseaseAndSymptoms.csv'' = Inr d \<Longrightarrow> read_csv ''Disease precaution.csv'' = Inl FileNotFoundError \<Longrightarrow>
   init lib read_csv = prepare_model lib (new_assistant\<lparr>diseases_df := Some d\<rparr>)"
  by (simp add: init_def load_data_def )

lemma init_no_disease_rows:
  assumes "read_csv ''DiseaseAndSymptoms.csv'' = Inr d" "read_csv ''Disease precaution.csv'' = Inr p"
    and "rows d = []" "''Disease'' \<in> set (columns d)"
  shows "init lib read_csv =
           Inr (new_assistant\<lparr>diseases_df := Some d, precautions_df := Some p,
                               model := Some (Pipeline None)\<rparr>)"
proof -
  let ?a = "new_assistant\<lparr>diseases_df := Some d, precautions_df := Some p\<rparr>"
  have c: "clean_data ?a = Inr ?a"
    using clean_data_no_rows [of ?a d] assms(3,4) by (simp add: new_assistant_def)
  have l: "load_data read_csv new_assistant = Inr ?a"
    using assms(1,2) c by (simp add: load_data_def )
  have "prepare_model lib ?a = Inr (?a\<lparr>model := Some (Pipeline None)\<rparr>)"
    using assms(3) by (simp add: prepare_model_def)
  then show ?thesis using l by (simp add: init_def)
qed

lemma clean_data_precautions:
  "clean_data (a\<lparr>precautions_df := q\<rparr>) =
     (case clean_data a of Inl e \<Rightarrow> Inl e | Inr b \<Rightarrow> Inr (b\<lparr>precautions_df := q\<rparr>))"
  by (simp add: clean_data_def Let_def split: option.splits sum.splits)

lemma prepare_model_precautions:
  "prepare_model lib (a\<lparr>precautions_df := q\<rparr>) =
     (case prepare_model lib a of Inl e \<Rightarrow> Inl e | Inr b \<Rightarrow> Inr (b\<lparr>precautions_df := q\<rparr>))"
  by (simp add: prepare_model_def split: option.splits sum.splits prod.splits)

lemma collect_symptoms_error:
  "collect_symptoms df cols = Inl e \<Longrightarrow> e \<noteq> FileNotFoundError"
  by (induction cols) (auto simp: str_column_def split: if_splits sum.splits)

lemma clean_data_error: "clean_data a = Inl e \<Longrightarrow> e \<noteq> FileNotFoundError"
  by (auto simp: clean_data_def Let_def split: option.splits if_splits sum.splits
      dest: collect_symptoms_error)

lemma init_both_files:
  assumes "read_csv ''DiseaseAndSymptoms.csv'' = Inr d" "read_csv ''Disease precaution.csv'' = Inr p"
  shows "init lib read_csv =
           (case clean_data (new_assistant\<lparr>diseases_df := Some d\<rparr>) of
              Inl e \<Rightarrow> Inl e
            | Inr b \<Rightarrow>
                (case prepare_model lib b of
                   Inl e \<Rightarrow> Inl e
                 | Inr c \<Rightarrow> Inr (c\<lparr>precautions_df := Some p\<rparr>)))"
proof -
  let ?a1 = "new_assistant\<lparr>diseases_df := Some d\<rparr>"
  have l: "load_data read_csv new_assistant =
             (case clean_data ?a1 of Inl e \<Rightarrow> Inl e | Inr b \<Rightarrow> Inr (b\<lparr>precautions_df := Some p\<rparr>))"
  proof (cases "clean_data ?a1")
    case (Inl e)
    then have "e \<noteq> FileNotFoundError" by (rule clean_data_error)
    then show ?thesis
      using assms Inl
      by (simp add: load_data_def  clean_data_precautions)
  next
    case (Inr b)
    then show ?thesis
      using assms
      by (simp add: load_data_def  clean_data_precautions)
  qed
  show ?thesis
    by (simp add: init_def l prepare_model_precautions split: sum.splits)
qed

lemma init_precaution_table:
  assumes "read_csv ''DiseaseAndSymptoms.csv'' = Inr d" "read_csv ''Disease precaution.csv'' = Inr p"
    and "init lib read_csv = Inr a"
  shows "init lib (read_csv(''Disease precaution.csv'' := Inr q)) = Inr (a\<lparr>precautions_df := Some q\<rparr>)"
proof -
  have ne: "''DiseaseAndSymptoms.csv'' \<noteq> ''Disease precaution.csv''"
    by simp
  have 1: "(read_csv(''Disease precaution.csv'' := Inr q)) ''DiseaseAndSymptoms.csv'' = Inr d"
    using assms(1) ne by simp
  have 2: "(read_csv(''Disease precaution.csv'' := Inr q)) ''Disease precaution.csv'' = Inr q"
    by simp
  show ?thesis
    using assms(3)
    unfolding init_both_files [OF 1 2] init_both_files [OF assms(1,2)]
    by (auto split: sum.splits)
qed

text \<open>
  C4 as stated fails: with both data files missing, \<^verbatim>\<open>HealthcareAssistant()\<close> does
  not fail; it yields an assistant without data and without model, whose predictions are
  empty and whose precautions are the generic list.
\<close>

theorem init_missing_files_counterexample:
  "init demo_lib no_files = Inr new_assistant
   \<and> predict_disease demo_lib new_assistant ''fever'' = ([], [])
   \<and> get_precautions demo_lib new_assistant ''Flu'' = generic_advice"
  by (simp add: init_def load_data_def prepare_model_def new_assistant_def no_files_def
      predict_disease_def get_precautions_def)

text \<open>
  C4 (amended). A data source that cannot be located does not stop startup: with the
  disease file missing the assistant is left as created, without data and without model;
  with only the precaution file missing the model is still prepared from the disease
  table alone. A disease table that has a \<open>Disease\<close> column and zero rows leaves an
  unfitted pipeline, and replacing the precaution table (by one with zero rows, say)
  changes nothing but the stored table. Startup fails only when reading, cleaning or
  fitting raises another exception.
\<close>

theorem init_continues:
  "(read_csv ''DiseaseAndSymptoms.csv'' = Inl FileNotFoundError \<longrightarrow> init lib read_csv = Inr new_assistant)
   \<and> (read_csv ''DiseaseAndSymptoms.csv'' = Inr d \<and> read_csv ''Disease precaution.csv'' = Inl FileNotFoundError \<longrightarrow>
        init lib read_csv = prepare_model lib (new_assistant\<lparr>diseases_df := Some d\<rparr>))
   \<and> (read_csv ''DiseaseAndSymptoms.csv'' = Inr d \<and> read_csv ''Disease precaution.csv'' = Inr p
        \<and> rows d = [] \<and> ''Disease'' \<in> set (columns d) \<longrightarrow>
        init lib read_csv =
          Inr (new_assistant\<lparr>diseases_df := Some d, precautions_df := Some p,
                              model := Some (Pipeline None)\<rparr>))
   \<and> (read_csv ''DiseaseAndSymptoms.csv'' = Inr d \<and> read_csv ''Disease precaution.csv'' = Inr p
        \<and> init lib read_csv = Inr a \<longrightarrow>
        init lib (read_csv(''Disease precaution.csv'' := Inr q)) = Inr (a\<lparr>precautions_df := Some q\<rparr>))"
  using init_disease_file_missing [of read_csv lib]
    init_precaution_file_missing [of read_csv d lib]
    init_no_disease_rows [of read_csv d p lib]
    init_precaution_table [of read_csv d p lib a q]
  by blast


theorem init_continues_witness:
  "init demo_lib no_files = Inr new_assistant
   \<and> init demo_lib (demo_files(''Disease precaution.csv'' := Inl FileNotFoundError))
       = Inr (demo_assistant\<lparr>precautions_df := None, symptoms_list := [], diseases_list := []\<rparr>)
   \<and> init demo_lib (demo_files(''DiseaseAndSymptoms.csv'' := Inr (demo_diseases\<lparr>rows := []\<rparr>)))
       = Inr (new_assistant\<lparr>diseases_df := Some (demo_diseases\<lparr>rows := []\<rparr>),
                             precautions_df := Some demo_precautions,
                             model := Some (Pipeline None)\<rparr>)
   \<and> init demo_lib (demo_files(''Disease precaution.csv'' := Inr (demo_precautions\<lparr>rows := []\<rparr>)))
       = Inr (demo_assistant\<lparr>precautions_df := Some (demo_precautions\<lparr>rows := []\<rparr>)\<rparr>)"
proof -
  let ?f2 = "demo_files(''Disease precaution.csv'' := Inl FileNotFoundError)"
  let ?d3 = "demo_diseases\<lparr>rows := []\<rparr>"
  let ?f3 = "demo_files(''DiseaseAndSymptoms.csv'' := Inr ?d3)"
  let ?q = "demo_precautions\<lparr>rows := []\<rparr>"
  have 1: "init demo_lib no_files = Inr new_assistant"
    using init_continues [of no_files demo_lib] by (simp add: no_files_def)
  have "init demo_lib ?f2 = prepare_model demo_lib (new_assistant\<lparr>diseases_df := Some demo_diseases\<rparr>)"
    using init_continues [of ?f2 demo_lib demo_diseases] by (simp add: demo_files_def)
  also have "\<dots> = Inr (demo_assistant\<lparr>precautions_df := None, symptoms_list := [],
                                          diseases_list := []\<rparr>)"
    by (simp add: prepare_model_def new_assistant_def demo_assistant_def demo_diseases_def
        row_symptoms_def is_symptom_column_def strip_def is_space_def replace_underscore_def
        demo_lib_def)
  finally have 2: "init demo_lib ?f2 =
      Inr (demo_assistant\<lparr>precautions_df := None, symptoms_list := [], diseases_list := []\<rparr>)" .
  have 3: "init demo_lib ?f3 =
      Inr (new_assistant\<lparr>diseases_df := Some ?d3, precautions_df := Some demo_precautions,
                           model := Some (Pipeline None)\<rparr>)"
    using init_continues [of ?f3 demo_lib ?d3 demo_precautions]
    by (simp add: demo_files_def demo_diseases_def)
  have 4: "init demo_lib (demo_files(''Disease precaution.csv'' := Inr ?q))
             = Inr (demo_assistant\<lparr>precautions_df := Some ?q\<rparr>)"
    using init_continues [of demo_files demo_lib demo_diseases demo_precautions demo_assistant ?q]
      init_demo
    by (simp add: demo_files_def)
  show ?thesis using 1 2 3 4 by (intro conjI)
qed

section \<open>Facility ranking\<close>


text \<open>
  Every list that \<^verbatim>\<open>find_nearby_hospitals_real\<close> returns, other than the fallback list,
  is sorted by ascending distance and has at most 15 entries.
\<close>

lemma sort_and_truncate_sorted:
  "sorted (map distance (sort_and_truncate hs)) \<and> length (sort_and_truncate hs) \<le> 15"
proof -
  have "sorted (take 15 (map distance (sort_key distance hs)))"
    by (intro sorted_wrt_take) simp
  then show ?thesis by (simp add: sort_and_truncate_def take_map)
qed

lemma search_osm_sorted_or_fallback:
  "search_osm_hospitals svc la lo r = get_fallback_hospitals la lo r \<or>
   (sorted (map distance (search_osm_hospitals svc la lo r))
    \<and> length (search_osm_hospitals svc la lo r) \<le> 15)"
  using sort_and_truncate_sorted
  by (auto simp: search_osm_hospitals_def split: sum.splits prod.splits)

lemma find_nearby_sorted_or_fallback:
  "find_nearby_hospitals_real svc la lo r = get_fallback_hospitals la lo r \<or>
   (sorted (map distance (find_nearby_hospitals_real svc la lo r))
    \<and> length (find_nearby_hospitals_real svc la lo r) \<le> 15)"
proof (cases "gmaps_client svc")
  case None
  then show ?thesis
    using search_osm_sorted_or_fallback [of svc la lo r]
    by (simp add: find_nearby_hospitals_real_def)
next
  case (Some g)
  then show ?thesis
    using sort_and_truncate_sorted
    by (auto simp: find_nearby_hospitals_real_def split: sum.splits)
qed

text \<open>
  C8. Without a Google Maps key and with the Overpass request failing,
  \<^verbatim>\<open>find_nearby_hospitals_real\<close> returns the fallback list as it is written: the
  distances 2.5 and 1.8, in that order, which is not ascending.
\<close>

theorem fallback_not_sorted:
  "map distance (find_nearby_hospitals_real demo_offline 40 (-74) 10) = [25 / 10, 18 / 10]
   \<and> \<not> sorted (map distance (find_nearby_hospitals_real demo_offline 40 (-74) 10))"
  by code_simp

end
